theory Spec2Isabelle
  imports Complex_Main "HOL-Library.Multiset"
begin

section \<open>Inventory API: the helpers, the product model and the request handlers\<close>

text \<open>
  The development embeds \<^verbatim>\<open>backend/utils/helpers.js\<close>, the methods of the
  \<^verbatim>\<open>Product\<close> model, the stock middleware of
  \<^verbatim>\<open>backend/middleware/validation.js\<close> and the handlers of
  \<^verbatim>\<open>backend/routes/products.js\<close> that the stated properties are about.

  Conventions of the embedding:
  \<^item> An integer-valued JavaScript number (stock, quantity, page, limit, a count) is an
    \<open>int\<close> or a \<open>nat\<close>; a decimal one (price, cost, a value of stock) is an exact
    \<open>rat\<close>. The rounding of IEEE doubles is outside the model.
  \<^item> A field that may be \<^verbatim>\<open>null\<close> or \<^verbatim>\<open>undefined\<close> is an \<open>option\<close>, with
    \<open>None\<close> for both, where the code treats the two alike; the body of a request
    tells them apart (\<open>optional\<close>).
  \<^item> A string is a list of code units, of which the model has the 256 of one byte; the
    accented letters of the messages are written by their code.
  \<^item> A \<^verbatim>\<open>throw\<close> is the \<open>Inl\<close> of a sum type.
\<close>

subsection \<open>JavaScript values\<close>

text \<open>Truthiness of a string, and of a boolean, that may be undefined.\<close>

definition truthy_str :: "string option \<Rightarrow> bool" where
  "truthy_str v = (case v of None \<Rightarrow> False | Some s \<Rightarrow> s \<noteq> [])"

definition truthy_bool :: "bool option \<Rightarrow> bool" where
  "truthy_bool v = (case v of None \<Rightarrow> False | Some b \<Rightarrow> b)"

text \<open>
  The quotient of two integers followed by \<^verbatim>\<open>Math.ceil\<close>: a division by zero gives
  an infinity or NaN, which \<^verbatim>\<open>Math.ceil\<close> returns unchanged.
\<close>

datatype jsnumber = Num int | PosInfinity | NegInfinity | NaN

definition ceil_div :: "int \<Rightarrow> int \<Rightarrow> jsnumber" where
  "ceil_div a b =
     (if b = 0 then (if a = 0 then NaN else if 0 < a then PosInfinity else NegInfinity)
      else Num \<lceil>rat_of_int a / rat_of_int b\<rceil>)"

text \<open>\<^verbatim>\<open>page < totalPages\<close>: a comparison with NaN is false.\<close>

fun js_less :: "int \<Rightarrow> jsnumber \<Rightarrow> bool" where
  "js_less p (Num t) = (p < t)"
| "js_less p PosInfinity = True"
| "js_less p NegInfinity = False"
| "js_less p NaN = False"

subsection \<open>createPaginationMeta\<close>

record pagination =
  current_page :: int
  per_page :: int
  total_items :: int
  total_pages :: jsnumber
  has_next_page :: bool
  has_prev_page :: bool
  next_page :: "int option"
  prev_page :: "int option"

definition createPaginationMeta :: "int \<Rightarrow> int \<Rightarrow> int \<Rightarrow> pagination" where
  "createPaginationMeta page limit totalItems =
     (let totalPages = ceil_div totalItems limit in
      \<lparr> current_page = page,
        per_page = limit,
        total_items = totalItems,
        total_pages = totalPages,
        has_next_page = js_less page totalPages,
        has_prev_page = (1 < page),
        next_page = (if js_less page totalPages then Some (page + 1) else None),
        prev_page = (if 1 < page then Some (page - 1) else None) \<rparr>)"

subsection \<open>The product record\<close>

text \<open>
  The attributes of the \<^verbatim>\<open>Product\<close> model as a handler reads them. \<open>price\<close> is
  what the getter of the model returns, a number. \<open>cost\<close> is optional: a plain object
  may leave it out, and the getter of the model turns a stored null into 0.
\<close>

record product =
  id :: string
  name :: string
  sku :: string
  description :: "string option"
  price :: rat
  cost :: "rat option"
  stock :: int
  min_stock :: "int option"
  category :: "string option"
  brand :: "string option"
  is_active :: bool
  image_url :: "string option"
  created_at :: string
  updated_at :: string

text \<open>
  The getters of \<^verbatim>\<open>price\<close> and \<^verbatim>\<open>cost\<close>:
  \<^verbatim>\<open>value ? parseFloat(value) : 0\<close> on the stored decimal.
\<close>

definition decimal_get :: "rat option \<Rightarrow> rat" where
  "decimal_get v = (case v of None \<Rightarrow> 0 | Some x \<Rightarrow> x)"

text \<open>\<^verbatim>\<open>n || d\<close> on a number that may be null: 0 is falsy, like null.\<close>

definition js_or :: "int option \<Rightarrow> int \<Rightarrow> int" where
  "js_or v d = (case v of None \<Rightarrow> d | Some n \<Rightarrow> if n = 0 then d else n)"

subsection \<open>formatProductResponse and formatProductsList\<close>

record formatted = product +
  needs_restock :: bool
  is_out_of_stock :: bool
  stock_value :: rat

text \<open>
  \<^verbatim>\<open>parseFloat\<close> of a number is that number.
  \<^verbatim>\<open>product.cost ? parseFloat(product.cost) : null\<close> sends a cost of 0 to null.
\<close>

definition format_cost :: "rat option \<Rightarrow> rat option" where
  "format_cost c = (case c of None \<Rightarrow> None | Some x \<Rightarrow> if x = 0 then None else Some x)"

definition format_product :: "'a product_scheme \<Rightarrow> formatted" where
  "format_product p =
     \<lparr> id = id p,
       name = name p,
       sku = sku p,
       description = description p,
       price = price p,
       cost = format_cost (cost p),
       stock = stock p,
       min_stock = min_stock p,
       category = category p,
       brand = brand p,
       is_active = is_active p,
       image_url = image_url p,
       created_at = created_at p,
       updated_at = updated_at p,
       needs_restock = (stock p \<le> js_or (min_stock p) 5),
       is_out_of_stock = (stock p = 0),
       stock_value = price p * of_int (stock p) \<rparr>"

definition formatProductResponse :: "'a product_scheme option \<Rightarrow> formatted option" where
  "formatProductResponse product =
     (case product of None \<Rightarrow> None | Some p \<Rightarrow> Some (format_product p))"


subsection \<open>calculateInventoryStats\<close>

text \<open>
  The statistics object. While the loop runs, \<open>categories\<close> and \<open>brands\<close> are
  \<^verbatim>\<open>Set\<close>s (here: lists without repetition, in insertion order); at the end they
  are replaced by their sizes.
\<close>

record 'c stats =
  total_products :: nat
  total_value :: rat
  low_stock_count :: nat
  out_of_stock_count :: nat
  categories :: 'c
  brands :: 'c

definition set_add :: "string \<Rightarrow> string list \<Rightarrow> string list" where
  "set_add x s = (if x \<in> set s then s else s @ [x])"

text \<open>\<^verbatim>\<open>if (v) set.add(v)\<close>: null and the empty string are skipped.\<close>

definition add_truthy :: "string option \<Rightarrow> string list \<Rightarrow> string list" where
  "add_truthy v s = (case v of None \<Rightarrow> s | Some x \<Rightarrow> if x = [] then s else set_add x s)"

definition Math_round :: "rat \<Rightarrow> int" where
  "Math_round x = \<lfloor>x + 1 / 2\<rfloor>"

definition stats_step :: "string list stats \<Rightarrow> 'a product_scheme \<Rightarrow> string list stats" where
  "stats_step st p =
     \<lparr> total_products = total_products st,
       total_value = total_value st + price p * of_int (stock p),
       low_stock_count =
         (if stock p \<le> js_or (min_stock p) 5 then low_stock_count st + 1 else low_stock_count st),
       out_of_stock_count =
         (if stock p = 0 then out_of_stock_count st + 1 else out_of_stock_count st),
       categories = add_truthy (category p) (categories st),
       brands = add_truthy (brand p) (brands st) \<rparr>"

definition calculateInventoryStats :: "'a product_scheme list \<Rightarrow> nat stats" where
  "calculateInventoryStats products =
     (if products = [] then
        \<lparr> total_products = 0, total_value = 0, low_stock_count = 0,
          out_of_stock_count = 0, categories = 0, brands = 0 \<rparr>
      else
        let st = foldl stats_step
                   \<lparr> total_products = length products, total_value = 0, low_stock_count = 0,
                     out_of_stock_count = 0, categories = [], brands = [] \<rparr>
                   products
        in \<lparr> total_products = total_products st,
             total_value = rat_of_int (Math_round (total_value st * 100)) / 100,
             low_stock_count = low_stock_count st,
             out_of_stock_count = out_of_stock_count st,
             categories = length (categories st),
             brands = length (brands st) \<rparr>)"

subsection \<open>Strings\<close>

text \<open>
  \<^verbatim>\<open>String.prototype.trim\<close> on 8-bit code units: the white space is tab, line feed,
  vertical tab, form feed, carriage return, space and the no-break space.
\<close>

definition is_space :: "char \<Rightarrow> bool" where
  "is_space c = ((of_char c :: nat) \<in> {9, 10, 11, 12, 13, 32, 160})"

definition trim :: "string \<Rightarrow> string" where
  "trim s = rev (dropWhile is_space (rev (dropWhile is_space s)))"

text \<open>
  \<^verbatim>\<open>toUpperCase\<close> on the letters a to z. The other code units are left as they
  are: JavaScript maps none of them to a letter sequence that occurs in ASC or DESC.
\<close>

definition upper_char :: "char \<Rightarrow> char" where
  "upper_char c =
     (let n = (of_char c :: nat) in if 97 \<le> n \<and> n \<le> 122 then char_of (n - 32) else c)"

definition toUpperCase :: "string \<Rightarrow> string" where
  "toUpperCase s = map upper_char s"

text \<open>The decimal text of an integer, as a template literal prints it.\<close>

fun show_nat :: "nat \<Rightarrow> string" where
  "show_nat n =
     (if n < 10 then [char_of (48 + n)] else show_nat (n div 10) @ [char_of (48 + n mod 10)])"

definition show_int :: "int \<Rightarrow> string" where
  "show_int i = (if i < 0 then CHR ''-'' # show_nat (nat (- i)) else show_nat (nat i))"

subsection \<open>buildSearchFilters and buildSortOptions\<close>

text \<open>
  The filter object handed to the persistence library. Its keys are \<^verbatim>\<open>Op.or\<close>,
  \<^verbatim>\<open>category\<close>, \<^verbatim>\<open>brand\<close> and \<^verbatim>\<open>is_active\<close>; a key that was never assigned is
  \<open>None\<close>. A condition is \<^verbatim>\<open>Op.iLike\<close> with a pattern, or \<^verbatim>\<open>Op.lte\<close> with a
  literal or with another column.
\<close>

datatype operand = Lit int | Col string

datatype condition = ILike string | Lte operand

record where_clause =
  w_or :: "(string \<times> condition) list option"
  w_category :: "condition option"
  w_brand :: "condition option"
  w_is_active :: "bool option"

record search_params =
  q_search :: "string option"
  q_category :: "string option"
  q_brand :: "string option"
  q_is_active :: "bool option"
  q_low_stock :: "bool option"

text \<open>The template literal \<^verbatim>\<open>`%${v}%`\<close>.\<close>

definition contains_pattern :: "string option \<Rightarrow> string" where
  "contains_pattern v = ''%'' @ (case v of None \<Rightarrow> ''undefined'' | Some s \<Rightarrow> s) @ ''%''"

text \<open>The five \<^verbatim>\<open>if\<close> statements, in the order of the source, each updating \<open>where\<close>.\<close>

definition buildSearchFilters :: "'a search_params_scheme \<Rightarrow> where_clause" where
  "buildSearchFilters searchParams =
     (let w0 = \<lparr> w_or = None, w_category = None, w_brand = None, w_is_active = None \<rparr>;
          w1 = (if truthy_str (q_search searchParams)
                then w0\<lparr> w_or := Some
                       [(''name'', ILike (contains_pattern (q_search searchParams))),
                        (''sku'', ILike (contains_pattern (q_search searchParams))),
                        (''description'', ILike (contains_pattern (q_search searchParams)))] \<rparr>
                else w0);
          w2 = (if truthy_str (q_category searchParams)
                then w1\<lparr> w_category := Some (ILike (contains_pattern (q_category searchParams))) \<rparr>
                else w1);
          w3 = (if truthy_str (q_brand searchParams)
                then w2\<lparr> w_brand := Some (ILike (contains_pattern (q_brand searchParams))) \<rparr>
                else w2);
          w4 = (if q_is_active searchParams \<noteq> None
                then w3\<lparr> w_is_active := q_is_active searchParams \<rparr>
                else w3);
          w5 = (if truthy_bool (q_low_stock searchParams)
                then w4\<lparr> w_or := Some
                       [(''stock'', Lte (Col ''min_stock'')),
                        (''stock'', Lte (Lit 10))] \<rparr>
                else w4)
      in w5)"

definition validSortFields :: "string list" where
  "validSortFields = [''name'', ''sku'', ''price'', ''stock'', ''created_at'', ''updated_at'']"

definition buildSortOptions :: "string option \<Rightarrow> string option \<Rightarrow> (string \<times> string) list" where
  "buildSortOptions sortBy sortOrder =
     (let sortBy' = (case sortBy of None \<Rightarrow> ''created_at'' | Some s \<Rightarrow> s);
          sortOrder' = (case sortOrder of None \<Rightarrow> ''DESC'' | Some s \<Rightarrow> s);
          field = (if sortBy' \<in> set validSortFields then sortBy' else ''created_at'');
          order = (if toUpperCase sortOrder' \<in> set [''ASC'', ''DESC'']
                   then toUpperCase sortOrder' else ''DESC'')
      in [(field, order)])"

subsection \<open>The options of the listing\<close>

text \<open>
  The validated query of \<^verbatim>\<open>GET /api/products\<close>: the schema has given \<open>page\<close> and
  \<open>limit\<close> their defaults and made them integers, on which \<^verbatim>\<open>parseInt\<close> changes
  nothing. Of the options of the query, the constant list of attributes is left out.
\<close>

record list_query = search_params +
  q_page :: int
  q_limit :: int
  q_sort_by :: "string option"
  q_sort_order :: "string option"

record find_options =
  fo_where :: where_clause
  fo_order :: "(string \<times> string) list"
  fo_limit :: "int option"
  fo_offset :: "int option"

definition list_options :: "list_query \<Rightarrow> find_options" where
  "list_options q =
     \<lparr> fo_where = buildSearchFilters q,
       fo_order = buildSortOptions (q_sort_by q) (q_sort_order q),
       fo_limit = Some (q_limit q),
       fo_offset = Some ((q_page q - 1) * q_limit q) \<rparr>"

subsection \<open>The persistence store\<close>

text \<open>
  The table of products is a list of rows; a row is a product with its deletion mark
  (the model is paranoid: a row with a deletion mark is skipped by every query that does
  not ask for it). How the database matches a row against a filter and how it orders two
  rows are parameters \<open>sat\<close> and \<open>precedes\<close> of the queries. Timestamps, and failures
  of the database itself (a lost connection), are outside the model.
\<close>

record row = product +
  deleted_at :: "string option"

text \<open>The built-in error with its message, which is what a \<^verbatim>\<open>throw\<close> here carries.\<close>

datatype js_error = Error string

fun insert_by :: "('a \<Rightarrow> 'a \<Rightarrow> bool) \<Rightarrow> 'a \<Rightarrow> 'a list \<Rightarrow> 'a list" where
  "insert_by precedes x [] = [x]"
| "insert_by precedes x (y # ys) =
     (if precedes x y then x # y # ys else y # insert_by precedes x ys)"

definition sort_by :: "('a \<Rightarrow> 'a \<Rightarrow> bool) \<Rightarrow> 'a list \<Rightarrow> 'a list" where
  "sort_by precedes xs = foldr (insert_by precedes) xs []"


definition findByPk :: "row list \<Rightarrow> string \<Rightarrow> row option" where
  "findByPk rows pk = find (\<lambda>r. deleted_at r = None \<and> id r = pk) rows"

text \<open>The update of the row with the key of \<open>r\<close>.\<close>

definition write_row :: "row list \<Rightarrow> row \<Rightarrow> row list" where
  "write_row rows r = map (\<lambda>r'. if id r' = id r then r else r') rows"

text \<open>
  The validators that \<^verbatim>\<open>Product.init\<close> declares for \<^verbatim>\<open>stock\<close> are \<^verbatim>\<open>isInt\<close>, which
  an integer passes, and \<^verbatim>\<open>min: { args: 0, msg: 'El stock no puede ser negativo' }\<close>.
  The persistence library hands a validator the argument \<^verbatim>\<open>test.args || test\<close>: an
  \<^verbatim>\<open>args\<close> of 0 is falsy, so \<^verbatim>\<open>min\<close> receives the validator object itself, and its
  test \<^verbatim>\<open>number >= val\<close> against an object is false for every number.
\<close>

datatype validator_arg = ArgNumber int | ArgObject

definition extractValidatorArgs :: "int \<Rightarrow> validator_arg" where
  "extractValidatorArgs args = (if args = 0 then ArgObject else ArgNumber args)"

definition validator_min :: "int \<Rightarrow> validator_arg \<Rightarrow> bool" where
  "validator_min number val = (case val of ArgNumber n \<Rightarrow> n \<le> number | ArgObject \<Rightarrow> False)"

definition stock_min_args :: int where
  "stock_min_args = 0"

definition validate_stock :: "int \<Rightarrow> string list" where
  "validate_stock v =
     (if validator_min v (extractValidatorArgs stock_min_args) then []
      else [''El stock no puede ser negativo''])"

text \<open>
  The message of the validation error of the library: its items, each as
  \<^verbatim>\<open>Validation error: \<close> and its message, joined by a comma and a line feed.
\<close>

fun validation_message :: "string list \<Rightarrow> string" where
  "validation_message [] = []"
| "validation_message [m] = ''Validation error: '' @ m"
| "validation_message (m # ms) =
     ''Validation error: '' @ m @ '','' @ [char_of (10::nat)] @ validation_message ms"

text \<open>
  \<^verbatim>\<open>save()\<close> of an instance that was loaded as \<open>previous\<close>: it validates the
  attributes that have changed (here only the stock can have) and throws the validation
  error, or writes the row; with nothing changed it does neither.
\<close>

definition save :: "row list \<Rightarrow> row \<Rightarrow> row \<Rightarrow> js_error + row list" where
  "save rows previous this =
     (if stock this = stock previous then Inr rows
      else case validate_stock (stock this) of
        [] \<Rightarrow> Inr (write_row rows this)
      | m # ms \<Rightarrow> Inl (Error (validation_message (m # ms))))"

subsection \<open>Errors and the response envelope\<close>

text \<open>\<open>AppError\<close> is what \<^verbatim>\<open>createError(message, statusCode)\<close> builds.\<close>

datatype app_error = AppError string nat

record ('d, 'e, 'm) response =
  success :: bool
  message :: string
  data :: "'d option"
  errors :: "'e option"
  meta :: "'m option"

definition createResponse ::
  "bool \<Rightarrow> string \<Rightarrow> 'd option \<Rightarrow> 'e option \<Rightarrow> 'm option \<Rightarrow> ('d, 'e, 'm) response" where
  "createResponse success' message' data' errors' meta' =
     \<lparr> success = success', message = message', data = data', errors = errors', meta = meta' \<rparr>"

subsection \<open>Product: hasStock and updateStock\<close>

definition hasStock :: "'a product_scheme \<Rightarrow> int \<Rightarrow> bool" where
  "hasStock this quantity = (quantity \<le> stock this)"

text \<open>
  \<^verbatim>\<open>updateStock(quantity, operation)\<close> changes the stock of the instance and saves
  it; the result is the error that it or \<^verbatim>\<open>save()\<close> throws, or the saved instance and the
  table. An operation other than \<^verbatim>\<open>'subtract'\<close> and \<^verbatim>\<open>'add'\<close> saves the instance as it
  is. The operation is always given here, as the route gives it; the default of the
  parameter is not used.
\<close>

definition save_instance :: "row list \<Rightarrow> row \<Rightarrow> row \<Rightarrow> js_error + row \<times> row list" where
  "save_instance rows previous this =
     (case save rows previous this of Inl e \<Rightarrow> Inl e | Inr rows' \<Rightarrow> Inr (this, rows'))"

definition updateStock :: "row list \<Rightarrow> row \<Rightarrow> int \<Rightarrow> string \<Rightarrow> js_error + row \<times> row list" where
  "updateStock rows this quantity operation =
     (if operation = ''subtract'' then
        (if stock this < quantity then Inl (Error ''Stock insuficiente'')
         else save_instance rows this (this\<lparr> stock := stock this - quantity \<rparr>))
      else if operation = ''add'' then
        save_instance rows this (this\<lparr> stock := stock this + quantity \<rparr>)
      else save_instance rows this this)"

subsection \<open>validateStockOperation of the helpers\<close>

text \<open>The helper of \<^verbatim>\<open>utils/helpers.js\<close>; no handler calls it.\<close>

definition validateStockOperation :: "int \<Rightarrow> string \<Rightarrow> int \<Rightarrow> js_error + bool" where
  "validateStockOperation currentStock operation quantity =
     (if operation = ''subtract'' \<and> currentStock < quantity then
        Inl (Error (''Stock insuficiente. Stock actual: '' @ show_int currentStock
                    @ '', cantidad solicitada: '' @ show_int quantity))
      else if quantity \<le> 0 then Inl (Error ''La cantidad debe ser mayor a 0'')
      else Inr True)"

subsection \<open>The stock middleware\<close>

text \<open>
  The body of \<^verbatim>\<open>PATCH /:id/stock\<close> and the schema of the middleware. The schema is
  checked key by key in the order it is written, each key rule by rule, and the check
  stops at the first failure (the validation library's default). A number outside the
  safe integers is refused before the rules of its key (the schema does not ask for
  \<^verbatim>\<open>unsafe()\<close>). \<open>quantity\<close> is an integer by its type here, so the rule
  \<^verbatim>\<open>integer()\<close> holds. A string key refuses null, and the empty string unless told
  otherwise. \<open>reason\<close> may be left out, be null or be a string.
\<close>

datatype 'a optional = Missing | JNull | Given 'a

datatype jsvalue = VNum int | VStr string | VNull

definition MAX_SAFE_INTEGER :: int where
  "MAX_SAFE_INTEGER = 9007199254740991"

record field_error =
  fe_field :: string
  fe_message :: string
  fe_value :: jsvalue

record stock_body =
  quantity :: int
  operation :: string
  reason :: "string optional"

definition operation_message :: string where
  "operation_message = ''La operaci'' @ [char_of (243::nat)] @ ''n debe ser \"add\" o \"subtract\"''"

definition reason_message :: string where
  "reason_message = ''La raz'' @ [char_of (243::nat)] @ ''n no puede exceder 255 caracteres''"

definition stock_schema :: "stock_body \<Rightarrow> field_error list + stock_body" where
  "stock_schema body =
     (if quantity body < - MAX_SAFE_INTEGER \<or> MAX_SAFE_INTEGER < quantity body then
        Inl [\<lparr> fe_field = ''quantity'', fe_message = ''\"quantity\" must be a safe number'',
               fe_value = VNum (quantity body) \<rparr>]
      else if quantity body \<le> 0 then
        Inl [\<lparr> fe_field = ''quantity'', fe_message = ''La cantidad debe ser mayor a 0'',
               fe_value = VNum (quantity body) \<rparr>]
      else if operation body \<notin> set [''add'', ''subtract''] then
        Inl [\<lparr> fe_field = ''operation'', fe_message = operation_message,
               fe_value = VStr (operation body) \<rparr>]
      else case reason body of
        Missing \<Rightarrow> Inr body
      | JNull \<Rightarrow>
          Inl [\<lparr> fe_field = ''reason'', fe_message = ''\"reason\" must be a string'',
                 fe_value = VNull \<rparr>]
      | Given r \<Rightarrow>
          if trim r = [] then
            Inl [\<lparr> fe_field = ''reason'', fe_message = ''\"reason\" is not allowed to be empty'',
                   fe_value = VStr (trim r) \<rparr>]
          else if 255 < length (trim r) then
            Inl [\<lparr> fe_field = ''reason'', fe_message = reason_message, fe_value = VStr (trim r) \<rparr>]
          else Inr (body\<lparr> reason := Given (trim r) \<rparr>))"

subsection \<open>PATCH /:id/stock\<close>

record stock_movement =
  previous_stock :: int
  current_stock :: int
  sm_operation :: string
  sm_quantity :: int
  sm_reason :: "string option"
  sm_timestamp :: string

record stock_data =
  sd_product :: "formatted option"
  sd_stock_movement :: stock_movement

text \<open>\<^verbatim>\<open>reason || null\<close>.\<close>

definition reason_or_null :: "string optional \<Rightarrow> string option" where
  "reason_or_null v = (case v of Given r \<Rightarrow> if r = [] then None else Some r | _ \<Rightarrow> None)"

text \<open>
  What the route answers: the 400 of \<^verbatim>\<open>validateUUID\<close>, the 400 of the stock
  middleware with its list of errors, an \<open>AppError\<close> thrown by the handler (which the
  error handler reports with its status), or the envelope of the success.
\<close>

datatype reply =
    InvalidId
  | StockValidationFailed "field_error list"
  | Thrown app_error
  | StockUpdated "(stock_data, unit, unit) response"

definition stock_handler :: "string \<Rightarrow> row list \<Rightarrow> string \<Rightarrow> stock_body \<Rightarrow> reply \<times> row list" where
  "stock_handler now rows pk body =
     (case findByPk rows pk of
        None \<Rightarrow> (Thrown (AppError ''Producto no encontrado'' 404), rows)
      | Some product \<Rightarrow>
          let previousStock = stock product in
          (case updateStock rows product (quantity body) (operation body) of
            Inl (Error m) \<Rightarrow> (Thrown (AppError m 400), rows)
          | Inr (product', rows') \<Rightarrow>
              (StockUpdated
                 (createResponse True
                    (''Stock '' @ (if operation body = ''add'' then ''aumentado'' else ''reducido'')
                       @ '' correctamente'')
                    (Some \<lparr> sd_product = formatProductResponse (Some product'),
                            sd_stock_movement =
                              \<lparr> previous_stock = previousStock,
                                current_stock = stock product',
                                sm_operation = operation body,
                                sm_quantity = quantity body,
                                sm_reason = reason_or_null (reason body),
                                sm_timestamp = now \<rparr> \<rparr>)
                    None None),
               rows')))"

text \<open>
  The route: \<^verbatim>\<open>validateUUID\<close>, then the stock middleware, then the handler. Whether an
  identifier is a well-formed UUID is the parameter \<open>uuid_ok\<close>.
\<close>

definition stock_route ::
  "(string \<Rightarrow> bool) \<Rightarrow> string \<Rightarrow> row list \<Rightarrow> string \<Rightarrow> stock_body \<Rightarrow> reply \<times> row list" where
  "stock_route uuid_ok now rows pk body =
     (if \<not> uuid_ok pk then (InvalidId, rows)
      else case stock_schema body of
        Inl errs \<Rightarrow> (StockValidationFailed errs, rows)
      | Inr body' \<Rightarrow> stock_handler now rows pk body')"

subsection \<open>GET /search\<close>




subsection \<open>generateSimpleReport\<close>

text \<open>
  \<^verbatim>\<open>Array.prototype.sort\<close> with a comparator: \<open>a\<close> stays before \<open>b\<close> when
  \<^verbatim>\<open>cmp(a, b) <= 0\<close>. The sort is stable, and for a comparator that orders by a
  number every stable sort returns the same array; here it is computed by insertion.
\<close>

definition sort_js :: "('a \<Rightarrow> 'a \<Rightarrow> rat) \<Rightarrow> 'a list \<Rightarrow> 'a list" where
  "sort_js cmp xs = sort_by (\<lambda>a b. cmp a b \<le> 0) xs"

record 'p report =
  rp_generated_at :: string
  rp_type :: string
  rp_data :: "'p list"
  rp_title :: string
  rp_total_items :: nat
  rp_stats :: "nat stats"

definition report_view :: "'a product_scheme list \<Rightarrow> string \<Rightarrow> 'a product_scheme list \<times> string" where
  "report_view products type' =
     (if type' = ''low_stock'' then
        (filter (\<lambda>p. stock p \<le> js_or (min_stock p) 5) products, ''Productos con Stock Bajo'')
      else if type' = ''out_of_stock'' then
        (filter (\<lambda>p. stock p = 0) products, ''Productos Agotados'')
      else if type' = ''high_value'' then
        (sort_js (\<lambda>a b. price b * of_int (stock b) - price a * of_int (stock a))
           (filter (\<lambda>p. 1000 < price p * of_int (stock p)) products),
         ''Productos de Alto Valor en Inventario'')
      else (products, ''Inventario General''))"

definition generateSimpleReport ::
  "string \<Rightarrow> 'a product_scheme list \<Rightarrow> string \<Rightarrow> 'a product_scheme report" where
  "generateSimpleReport now products type' =
     (let (data', title') = report_view products type' in
      \<lparr> rp_generated_at = now,
        rp_type = type',
        rp_data = data',
        rp_title = title',
        rp_total_items = length data',
        rp_stats = calculateInventoryStats data' \<rparr>)"

subsection \<open>Example data\<close>

text \<open>The product of the example of the specification, as a live row, and a query.\<close>

definition widget :: row where
  "widget =
     \<lparr> id = ''p1'', name = ''Widget'', sku = ''WDG-1'', description = None,
       price = 999 / 100, cost = None, stock = 5, min_stock = Some 5,
       category = Some ''tools'', brand = None, is_active = True, image_url = None,
       created_at = ''2024-01-01'', updated_at = ''2024-01-01'', deleted_at = None \<rparr>"

definition example_query :: list_query where
  "example_query =
     \<lparr> q_search = Some ''wid'', q_category = Some ''tools'', q_brand = None,
       q_is_active = Some True, q_low_stock = Some True,
       q_page = 2, q_limit = 10, q_sort_by = Some ''created_at'', q_sort_order = Some ''DESC'' \<rparr>"

section \<open>Properties\<close>

subsection \<open>The filter of the listing\<close>

text \<open>
  C1. When a query supplies both a search text and \<^verbatim>\<open>low_stock=true\<close>, the filter that
  \<open>buildSearchFilters\<close> builds is the one it builds from the same query without the
  search text: the group of the low stock (stock at most the row's own \<open>min_stock\<close>, or
  stock at most 10) has taken the place of the group on name, sku and description, which
  the query without \<open>low_stock\<close> would have had. The filters on category, brand and
  \<open>is_active\<close> are those of the query with neither.
\<close>

theorem low_stock_overwrites_search:
  assumes "q_search q = Some s" and "s \<noteq> []" and "q_low_stock q = Some True"
  shows "buildSearchFilters q = buildSearchFilters (q\<lparr> q_search := None \<rparr>)
    \<and> w_or (buildSearchFilters q)
        = Some [(''stock'', Lte (Col ''min_stock'')), (''stock'', Lte (Lit 10))]
    \<and> w_or (buildSearchFilters (q\<lparr> q_low_stock := None \<rparr>))
        = Some [(''name'', ILike (''%'' @ s @ ''%'')), (''sku'', ILike (''%'' @ s @ ''%'')),
                (''description'', ILike (''%'' @ s @ ''%''))]
    \<and> w_category (buildSearchFilters q)
        = w_category (buildSearchFilters (q\<lparr> q_search := None, q_low_stock := None \<rparr>))
    \<and> w_brand (buildSearchFilters q)
        = w_brand (buildSearchFilters (q\<lparr> q_search := None, q_low_stock := None \<rparr>))
    \<and> w_is_active (buildSearchFilters q)
        = w_is_active (buildSearchFilters (q\<lparr> q_search := None, q_low_stock := None \<rparr>))"
  using assms
  by (simp add: buildSearchFilters_def truthy_str_def truthy_bool_def contains_pattern_def Let_def)

theorem low_stock_overwrites_search_witness:
  "buildSearchFilters example_query = buildSearchFilters (example_query\<lparr> q_search := None \<rparr>)
    \<and> w_or (buildSearchFilters example_query)
        = Some [(''stock'', Lte (Col ''min_stock'')), (''stock'', Lte (Lit 10))]
    \<and> w_or (buildSearchFilters (example_query\<lparr> q_low_stock := None \<rparr>))
        = Some [(''name'', ILike ''%wid%''), (''sku'', ILike ''%wid%''),
                (''description'', ILike ''%wid%'')]
    \<and> w_category (buildSearchFilters example_query) = Some (ILike ''%tools%'')"
  using low_stock_overwrites_search [of example_query "''wid''"]
  by (simp add: example_query_def buildSearchFilters_def truthy_str_def truthy_bool_def
      contains_pattern_def Let_def)

subsection \<open>Pagination\<close>

text \<open>
  The number of pages for a positive limit is the least number of pages of that size that
  hold all the items.
\<close>

lemma total_pages_least:
  assumes "0 < l"
  shows "\<exists>k. total_pages (createPaginationMeta p l n) = Num k \<and> n \<le> k * l \<and> (k - 1) * l < n"
proof -
  let ?k = "\<lceil>rat_of_int n / rat_of_int l\<rceil>"
  have l: "0 < rat_of_int l"
    using assms by simp
  have "rat_of_int n / rat_of_int l \<le> rat_of_int ?k"
    by (rule le_of_int_ceiling)
  then have "rat_of_int n \<le> rat_of_int ?k * rat_of_int l"
    by (rule iffD1 [OF pos_divide_le_eq [OF l]])
  then have a: "n \<le> ?k * l"
    by (metis of_int_le_iff of_int_mult)
  have "rat_of_int ?k - 1 < rat_of_int n / rat_of_int l"
    by linarith
  then have "(rat_of_int ?k - 1) * rat_of_int l < rat_of_int n"
    by (rule iffD1 [OF pos_less_divide_eq [OF l]])
  then have "rat_of_int ((?k - 1) * l) < rat_of_int n"
    by simp
  then have b: "(?k - 1) * l < n"
    by (simp only: of_int_less_iff)
  have "total_pages (createPaginationMeta p l n) = Num ?k"
    using assms by (simp add: createPaginationMeta_def ceil_div_def)
  with a b show ?thesis by blast
qed

text \<open>
  C5. For a positive page \<open>p\<close>, a positive limit \<open>l\<close> and a total \<open>n\<close> that is not
  negative, the metadata has \<open>total_pages\<close> the ceiling of \<open>n / l\<close>, the page, the limit
  and the total as given, \<open>has_next_page\<close> exactly when \<open>p\<close> is below the number of
  pages, \<open>has_prev_page\<close> exactly when \<open>p\<close> is above 1, \<open>next_page\<close> \<open>p + 1\<close> when there
  is a next page and null otherwise, \<open>prev_page\<close> \<open>p - 1\<close> when \<open>p\<close> is above 1 and null
  otherwise; and the listing asks the store for the offset \<open>(p - 1) * l\<close>.
\<close>

theorem pagination_meta:
  assumes "0 < p" and "0 < l" and "0 \<le> n"
  shows "total_pages (createPaginationMeta p l n) = Num \<lceil>rat_of_int n / rat_of_int l\<rceil>
    \<and> current_page (createPaginationMeta p l n) = p
    \<and> per_page (createPaginationMeta p l n) = l
    \<and> total_items (createPaginationMeta p l n) = n
    \<and> has_next_page (createPaginationMeta p l n) = (p < \<lceil>rat_of_int n / rat_of_int l\<rceil>)
    \<and> has_prev_page (createPaginationMeta p l n) = (1 < p)
    \<and> next_page (createPaginationMeta p l n)
        = (if p < \<lceil>rat_of_int n / rat_of_int l\<rceil> then Some (p + 1) else None)
    \<and> prev_page (createPaginationMeta p l n) = (if 1 < p then Some (p - 1) else None)
    \<and> fo_offset (list_options (q\<lparr> q_page := p, q_limit := l \<rparr>)) = Some ((p - 1) * l)"
  using assms by (simp add: createPaginationMeta_def ceil_div_def list_options_def Let_def)

theorem pagination_meta_witness:
  "total_pages (createPaginationMeta 2 10 25) = Num 3
    \<and> has_next_page (createPaginationMeta 2 10 25)
    \<and> next_page (createPaginationMeta 2 10 25) = Some 3
    \<and> prev_page (createPaginationMeta 2 10 25) = Some 1
    \<and> fo_offset (list_options example_query) = Some 10"
proof -
  have "\<lceil>(5::rat) / 2\<rceil> = 3"
    by (rule ceiling_unique) simp_all
  then show ?thesis
    using pagination_meta [of 2 10 25 example_query] by (simp add: example_query_def)
qed

subsection \<open>The response formatter\<close>

text \<open>
  C10. The formatter writes \<open>cost\<close> as null when the cost of the record is null, absent
  or 0, and as the cost itself otherwise; so a record with cost 0 and the same record
  without a cost have the same wire representation. A stored null reaches the formatter
  as 0 through the getter of the model, and is written as null too.
\<close>

theorem zero_cost_formats_to_null:
  "map_option cost (formatProductResponse (Some p))
      = Some (if cost p = None \<or> cost p = Some 0 then None else cost p)
    \<and> formatProductResponse (Some (p\<lparr> cost := Some 0 \<rparr>))
        = formatProductResponse (Some (p\<lparr> cost := None \<rparr>))
    \<and> format_cost (Some (decimal_get None)) = None"
  by (auto simp add: formatProductResponse_def format_product_def format_cost_def decimal_get_def
      split: option.splits)

text \<open>
  The derived fields. With a threshold that is set and not 0, \<open>needs_restock\<close> compares
  the stock with it; with no threshold it compares with 5.
\<close>

lemma needs_restock_set_threshold:
  "min_stock p = Some m \<Longrightarrow> m \<noteq> 0 \<Longrightarrow> needs_restock (format_product p) = (stock p \<le> m)"
  by (simp add: format_product_def js_or_def)

lemma needs_restock_unset_threshold:
  "min_stock p = None \<Longrightarrow> needs_restock (format_product p) = (stock p \<le> 5)"
  by (simp add: format_product_def js_or_def)

lemma derived_fields:
  "is_out_of_stock (format_product p) = (stock p = 0)
   \<and> stock_value (format_product p) = price p * of_int (stock p)"
  by (simp add: format_product_def)

text \<open>
  C4. The property: for a record with stock and threshold that are not negative,
  \<open>needs_restock\<close> holds exactly when the stock is at most \<open>min_stock\<close> (5 when
  \<open>min_stock\<close> is unset), \<open>is_out_of_stock\<close> exactly when the stock is 0, and
  \<open>stock_value\<close> is price times stock. The last two hold (\<open>derived_fields\<close>), and so
  does the first for a threshold that is unset or not 0. A threshold of 0 is a value the
  model and the request schema accept, but \<^verbatim>\<open>product.min_stock || 5\<close> takes it
  for unset: the record with stock 3 and \<open>min_stock\<close> 0 is formatted with
  \<open>needs_restock\<close> true, although 3 is not at most 0.
\<close>

theorem needs_restock_at_zero_threshold:
  "map_option needs_restock
     (formatProductResponse (Some (widget\<lparr> stock := 3, min_stock := Some 0 \<rparr>))) = Some True"
  by (simp add: formatProductResponse_def format_product_def js_or_def widget_def)

subsection \<open>The loop of the statistics\<close>

lemma js_or_nonneg: "\<forall>m. v = Some m \<longrightarrow> 0 \<le> m \<Longrightarrow> 0 \<le> js_or v 5"
  by (simp add: js_or_def split: option.splits)

lemma foldl_stats_low:
  "low_stock_count (foldl stats_step st ps)
     = low_stock_count st + length (filter (\<lambda>p. stock p \<le> js_or (min_stock p) 5) ps)"
  by (induction ps arbitrary: st) (simp_all add: stats_step_def)

lemma foldl_stats_out:
  "out_of_stock_count (foldl stats_step st ps)
     = out_of_stock_count st + length (filter (\<lambda>p. stock p = 0) ps)"
  by (induction ps arbitrary: st) (simp_all add: stats_step_def)

lemma foldl_stats_total:
  "total_products (foldl stats_step st ps) = total_products st"
  by (induction ps arbitrary: st) (simp_all add: stats_step_def)

lemma foldl_stats_value:
  "total_value (foldl stats_step st ps)
     = total_value st + (\<Sum>p\<leftarrow>ps. price p * of_int (stock p))"
  by (induction ps arbitrary: st) (simp_all add: stats_step_def)

lemma add_truthy_distinct: "distinct s \<Longrightarrow> distinct (add_truthy v s)"
  by (simp add: add_truthy_def set_add_def split: option.splits)

lemma add_truthy_set: "set (add_truthy v s) = set s \<union> {c. v = Some c \<and> c \<noteq> []}"
  by (auto simp add: add_truthy_def set_add_def split: option.splits)

lemma foldl_stats_categories:
  "distinct (categories st) \<Longrightarrow>
     distinct (categories (foldl stats_step st ps))
     \<and> set (categories (foldl stats_step st ps))
         = set (categories st) \<union> {c. Some c \<in> category ` set ps \<and> c \<noteq> []}"
proof (induction ps arbitrary: st)
  case Nil
  then show ?case by simp
next
  case (Cons p ps)
  have d: "distinct (categories (stats_step st p))"
    using Cons.prems by (simp add: stats_step_def add_truthy_distinct)
  have s: "set (categories (stats_step st p))
      = set (categories st) \<union> {c. category p = Some c \<and> c \<noteq> []}"
    by (simp add: stats_step_def add_truthy_set)
  show ?case
    using Cons.IH [OF d] s by auto
qed

lemma foldl_stats_brands:
  "distinct (brands st) \<Longrightarrow>
     distinct (brands (foldl stats_step st ps))
     \<and> set (brands (foldl stats_step st ps))
         = set (brands st) \<union> {c. Some c \<in> brand ` set ps \<and> c \<noteq> []}"
proof (induction ps arbitrary: st)
  case Nil
  then show ?case by simp
next
  case (Cons p ps)
  have d: "distinct (brands (stats_step st p))"
    using Cons.prems by (simp add: stats_step_def add_truthy_distinct)
  have s: "set (brands (stats_step st p))
      = set (brands st) \<union> {c. brand p = Some c \<and> c \<noteq> []}"
    by (simp add: stats_step_def add_truthy_set)
  show ?case
    using Cons.IH [OF d] s by auto
qed

lemma stats_low_count:
  "low_stock_count (calculateInventoryStats ps)
     = length (filter (\<lambda>p. stock p \<le> js_or (min_stock p) 5) ps)"
  by (simp add: calculateInventoryStats_def Let_def foldl_stats_low)

lemma stats_out_count:
  "out_of_stock_count (calculateInventoryStats ps) = length (filter (\<lambda>p. stock p = 0) ps)"
  by (simp add: calculateInventoryStats_def Let_def foldl_stats_out)

lemma stats_total_products: "total_products (calculateInventoryStats ps) = length ps"
  by (simp add: calculateInventoryStats_def Let_def foldl_stats_total)

lemma Math_round_zero: "Math_round 0 = 0"
proof -
  have "\<lfloor>(1::rat) / 2\<rfloor> = 0"
    by (rule floor_unique) simp_all
  then show ?thesis
    by (simp add: Math_round_def)
qed


lemma stats_total_value:
  "total_value (calculateInventoryStats ps)
     = rat_of_int (Math_round ((\<Sum>p\<leftarrow>ps. price p * of_int (stock p)) * 100)) / 100"
  by (simp add: calculateInventoryStats_def Let_def foldl_stats_value Math_round_zero)

lemma stats_categories:
  "categories (calculateInventoryStats ps) = card {c. Some c \<in> category ` set ps \<and> c \<noteq> []}"
proof (cases "ps = []")
  case True
  then show ?thesis by (simp add: calculateInventoryStats_def)
next
  case False
  let ?st = "\<lparr> total_products = length ps, total_value = 0, low_stock_count = 0,
                out_of_stock_count = 0, categories = ([]::string list), brands = ([]::string list) \<rparr>"
  have "distinct (categories (foldl stats_step ?st ps))
     \<and> set (categories (foldl stats_step ?st ps))
         = set (categories ?st) \<union> {c. Some c \<in> category ` set ps \<and> c \<noteq> []}"
    by (rule foldl_stats_categories) simp
  then have "length (categories (foldl stats_step ?st ps))
      = card {c. Some c \<in> category ` set ps \<and> c \<noteq> []}"
    using distinct_card [of "categories (foldl stats_step ?st ps)"] by simp
  with False show ?thesis
    by (simp add: calculateInventoryStats_def Let_def)
qed

lemma stats_brands:
  "brands (calculateInventoryStats ps) = card {c. Some c \<in> brand ` set ps \<and> c \<noteq> []}"
proof (cases "ps = []")
  case True
  then show ?thesis by (simp add: calculateInventoryStats_def)
next
  case False
  let ?st = "\<lparr> total_products = length ps, total_value = 0, low_stock_count = 0,
                out_of_stock_count = 0, categories = ([]::string list), brands = ([]::string list) \<rparr>"
  have "distinct (brands (foldl stats_step ?st ps))
     \<and> set (brands (foldl stats_step ?st ps))
         = set (brands ?st) \<union> {c. Some c \<in> brand ` set ps \<and> c \<noteq> []}"
    by (rule foldl_stats_brands) simp
  then have "length (brands (foldl stats_step ?st ps))
      = card {c. Some c \<in> brand ` set ps \<and> c \<noteq> []}"
    using distinct_card [of "brands (foldl stats_step ?st ps)"] by simp
  with False show ?thesis
    by (simp add: calculateInventoryStats_def Let_def)
qed

lemma stats_record:
  "calculateInventoryStats ps
     = \<lparr> total_products = length ps,
         total_value = rat_of_int (Math_round ((\<Sum>p\<leftarrow>ps. price p * of_int (stock p)) * 100)) / 100,
         low_stock_count = length (filter (\<lambda>p. stock p \<le> js_or (min_stock p) 5) ps),
         out_of_stock_count = length (filter (\<lambda>p. stock p = 0) ps),
         categories = card {c. Some c \<in> category ` set ps \<and> c \<noteq> []},
         brands = card {c. Some c \<in> brand ` set ps \<and> c \<noteq> []} \<rparr>"
  by (rule stats.equality)
    (simp_all add: stats_total_products stats_total_value stats_low_count
      stats_out_count stats_categories stats_brands)

lemma stats_perm:
  assumes "mset xs = mset ys"
  shows "calculateInventoryStats xs = calculateInventoryStats ys"
proof -
  have len: "length xs = length ys"
    using assms by (rule mset_eq_length)
  have sum: "(\<Sum>p\<leftarrow>xs. price p * of_int (stock p)) = (\<Sum>p\<leftarrow>ys. price p * of_int (stock p))"
  proof -
    have "mset (map (\<lambda>p. price p * rat_of_int (stock p)) xs)
            = mset (map (\<lambda>p. price p * rat_of_int (stock p)) ys)"
      using assms by simp
    then show ?thesis
      by (metis sum_mset_sum_list)
  qed
  have flt: "\<And>P. length (filter P xs) = length (filter P ys)"
  proof -
    fix P :: "'a product_scheme \<Rightarrow> bool"
    have "mset (filter P xs) = mset (filter P ys)"
      using assms by simp
    then show "length (filter P xs) = length (filter P ys)"
      by (rule mset_eq_length)
  qed
  have st: "set xs = set ys"
    using assms by (rule mset_eq_setD)
  show ?thesis
    unfolding stats_record by (simp only: len sum flt st)
qed

subsection \<open>The aggregate calculator\<close>

text \<open>
  Three records: the widget, one out of stock with another category and an empty brand,
  and one with stock 3 and a threshold of 0.
\<close>

lemma stats_example:
  "calculateInventoryStats
     [widget, widget\<lparr> stock := 0, category := Some ''toys'', brand := Some '''' \<rparr>,
      widget\<lparr> stock := 3, min_stock := Some 0 \<rparr>]
   = \<lparr> total_products = 3, total_value = 1998 / 25, low_stock_count = 3, out_of_stock_count = 1,
       categories = 2, brands = 0 \<rparr>"
  by code_simp


text \<open>
  C9. For a record whose \<open>min_stock\<close> is absent or not negative, the formatted response
  has \<open>needs_restock\<close> whenever it has \<open>is_out_of_stock\<close>; and for a collection of such
  records the calculator counts at least as many records with low stock as records out of
  stock. (That the stock is not negative is not needed.)
\<close>

theorem out_of_stock_implies_restock:
  assumes "\<forall>m. min_stock p = Some m \<longrightarrow> 0 \<le> m"
    and "\<forall>r \<in> set ps. \<forall>m. min_stock r = Some m \<longrightarrow> 0 \<le> m"
  shows "(is_out_of_stock (format_product p) \<longrightarrow> needs_restock (format_product p))
    \<and> out_of_stock_count (calculateInventoryStats ps)
        \<le> low_stock_count (calculateInventoryStats ps)"
proof
  show "is_out_of_stock (format_product p) \<longrightarrow> needs_restock (format_product p)"
    using js_or_nonneg [OF assms(1)] by (simp add: format_product_def)
next
  have "length (filter (\<lambda>r. stock r = 0) ps)
          = length (filter (\<lambda>r. stock r = 0) (filter (\<lambda>r. stock r \<le> js_or (min_stock r) 5) ps))"
  proof -
    have "filter (\<lambda>r. stock r = 0) (filter (\<lambda>r. stock r \<le> js_or (min_stock r) 5) ps)
            = filter (\<lambda>r. stock r = 0) ps"
      unfolding filter_filter
    proof (rule filter_cong [OF refl])
      fix r assume "r \<in> set ps"
      then have "0 \<le> js_or (min_stock r) 5"
        using assms(2) js_or_nonneg by blast
      then show "(stock r \<le> js_or (min_stock r) 5 \<and> stock r = 0) = (stock r = 0)"
        by auto
    qed
    then show ?thesis by simp
  qed
  also have "\<dots> \<le> length (filter (\<lambda>r. stock r \<le> js_or (min_stock r) 5) ps)"
    by (rule length_filter_le)
  finally show "out_of_stock_count (calculateInventoryStats ps)
        \<le> low_stock_count (calculateInventoryStats ps)"
    by (simp add: stats_low_count stats_out_count)
qed

theorem out_of_stock_implies_restock_witness:
  "is_out_of_stock (format_product (widget\<lparr> stock := 0 \<rparr>))
    \<and> needs_restock (format_product (widget\<lparr> stock := 0 \<rparr>))
    \<and> out_of_stock_count (calculateInventoryStats [widget\<lparr> stock := 0 \<rparr>, widget]) = 1
    \<and> low_stock_count (calculateInventoryStats [widget\<lparr> stock := 0 \<rparr>, widget]) = 2"
proof -
  have "(is_out_of_stock (format_product (widget\<lparr> stock := 0 \<rparr>))
           \<longrightarrow> needs_restock (format_product (widget\<lparr> stock := 0 \<rparr>)))
    \<and> out_of_stock_count (calculateInventoryStats [widget\<lparr> stock := 0 \<rparr>, widget])
        \<le> low_stock_count (calculateInventoryStats [widget\<lparr> stock := 0 \<rparr>, widget])"
    by (rule out_of_stock_implies_restock) (simp_all add: widget_def)
  moreover have "is_out_of_stock (format_product (widget\<lparr> stock := 0 \<rparr>))"
    by (simp add: format_product_def)
  moreover have "out_of_stock_count (calculateInventoryStats [widget\<lparr> stock := 0 \<rparr>, widget]) = 1"
    by (simp add: stats_out_count widget_def)
  moreover have "low_stock_count (calculateInventoryStats [widget\<lparr> stock := 0 \<rparr>, widget]) = 2"
    by (simp add: stats_low_count widget_def js_or_def)
  ultimately show ?thesis by blast
qed

subsection \<open>Sorting\<close>

lemma set_insert_by: "set (insert_by le x ys) = insert x (set ys)"
  by (induction ys) auto

lemma mset_insert_by: "mset (insert_by le x ys) = add_mset x (mset ys)"
  by (induction ys) simp_all

lemma mset_sort_by: "mset (sort_by le xs) = mset xs"
  by (induction xs) (simp_all add: sort_by_def mset_insert_by)

lemma sorted_insert_by:
  assumes total: "\<And>a b. le a b \<or> le b a"
    and trans: "\<And>a b c. le a b \<Longrightarrow> le b c \<Longrightarrow> le a c"
    and sorted: "sorted_wrt le ys"
  shows "sorted_wrt le (insert_by le x ys)"
  using sorted
proof (induction ys)
  case Nil
  then show ?case by simp
next
  case (Cons y ys)
  show ?case
  proof (cases "le x y")
    case True
    then have "\<forall>z \<in> set ys. le x z"
      using Cons.prems trans by auto
    with True Cons.prems show ?thesis by simp
  next
    case False
    then have "le y x"
      using total by blast
    with False Cons show ?thesis
      by (simp add: set_insert_by)
  qed
qed

lemma sorted_sort_by:
  assumes "\<And>a b. le a b \<or> le b a" and "\<And>a b c. le a b \<Longrightarrow> le b c \<Longrightarrow> le a c"
  shows "sorted_wrt le (sort_by le xs)"
proof (induction xs)
  case Nil
  then show ?case by (simp add: sort_by_def)
next
  case (Cons x xs)
  have "sort_by le (x # xs) = insert_by le x (sort_by le xs)"
    by (simp add: sort_by_def)
  with Cons assms show ?case
    by (simp add: sorted_insert_by)
qed

lemma sorted_sort_js:
  "sorted_wrt (\<lambda>a b. v b \<le> v a) (sort_js (\<lambda>a b. v b - v a) xs)"
proof -
  have "sorted_wrt (\<lambda>a b. v b - v a \<le> (0::rat)) (sort_by (\<lambda>a b. v b - v a \<le> 0) xs)"
    by (rule sorted_sort_by) auto
  then show ?thesis
    by (simp add: sort_js_def)
qed

lemma mset_sort_js: "mset (sort_js cmp xs) = mset xs"
  by (simp add: sort_js_def mset_sort_by)

lemma length_sort_js: "length (sort_js cmp xs) = length xs"
proof -
  have "size (mset (sort_js cmp xs)) = size (mset xs)"
    by (simp only: mset_sort_js)
  then show ?thesis by simp
qed

subsection \<open>The report of high value\<close>

lemma view_high_value:
  "report_view ps ''high_value''
     = (sort_js (\<lambda>a b. price b * of_int (stock b) - price a * of_int (stock a))
          (filter (\<lambda>p. 1000 < price p * of_int (stock p)) ps),
        ''Productos de Alto Valor en Inventario'')"
  by (simp add: report_view_def)

lemma report_high_value:
  "generateSimpleReport now ps ''high_value''
     = \<lparr> rp_generated_at = now, rp_type = ''high_value'',
         rp_data = fst (report_view ps ''high_value''),
         rp_title = ''Productos de Alto Valor en Inventario'',
         rp_total_items = length (fst (report_view ps ''high_value'')),
         rp_stats = calculateInventoryStats (fst (report_view ps ''high_value'')) \<rparr>"
  by (simp add: generateSimpleReport_def view_high_value)

lemma high_value_example:
  "map (\<lambda>p. (id p, stock p))
     (rp_data (generateSimpleReport ''t''
        [widget, widget\<lparr> id := ''p2'', stock := 200 \<rparr>, widget\<lparr> id := ''p3'', stock := 300 \<rparr>,
         widget\<lparr> id := ''p4'', stock := 200 \<rparr>] ''high_value''))
   = [(''p3'', 300), (''p2'', 200), (''p4'', 200)]"
  by code_simp

text \<open>
  C7. For every collection, the data of the report \<^verbatim>\<open>high_value\<close> are exactly the
  records with price times stock above 1000 (each as often as the collection has it), in
  descending order of price times stock; the report carries its title, \<open>total_items\<close>
  is the number of those records, and its statistics are those of the calculator on them.
\<close>

theorem high_value_report:
  "mset (rp_data (generateSimpleReport now ps ''high_value''))
      = mset (filter (\<lambda>p. 1000 < price p * of_int (stock p)) ps)
   \<and> sorted_wrt (\<lambda>a b. price b * of_int (stock b) \<le> price a * of_int (stock a))
        (rp_data (generateSimpleReport now ps ''high_value''))
   \<and> rp_title (generateSimpleReport now ps ''high_value'')
      = ''Productos de Alto Valor en Inventario''
   \<and> rp_total_items (generateSimpleReport now ps ''high_value'')
      = length (filter (\<lambda>p. 1000 < price p * of_int (stock p)) ps)
   \<and> rp_stats (generateSimpleReport now ps ''high_value'')
      = calculateInventoryStats (rp_data (generateSimpleReport now ps ''high_value''))
   \<and> rp_stats (generateSimpleReport now ps ''high_value'')
      = calculateInventoryStats (filter (\<lambda>p. 1000 < price p * of_int (stock p)) ps)"
proof -
  let ?r = "generateSimpleReport now ps ''high_value''"
  let ?v = "\<lambda>p::'a product_scheme. price p * of_int (stock p)"
  let ?hv = "filter (\<lambda>p. 1000 < ?v p) ps"
  have d: "rp_data ?r = sort_js (\<lambda>a b. ?v b - ?v a) ?hv"
    by (simp only: report_high_value view_high_value report.simps fst_conv)
  have t: "rp_title ?r = ''Productos de Alto Valor en Inventario''"
    by (simp only: report_high_value report.simps)
  have n: "rp_total_items ?r = length (rp_data ?r)"
    by (simp only: report_high_value report.simps)
  have s: "rp_stats ?r = calculateInventoryStats (rp_data ?r)"
    by (simp only: report_high_value report.simps)
  have 1: "mset (rp_data ?r) = mset ?hv"
    by (simp only: d mset_sort_js)
  have 2: "sorted_wrt (\<lambda>a b. ?v b \<le> ?v a) (rp_data ?r)"
    by (simp only: d sorted_sort_js)
  have 3: "rp_total_items ?r = length ?hv"
    by (simp only: n d length_sort_js)
  have 4: "rp_stats ?r = calculateInventoryStats ?hv"
    using stats_perm [OF 1] by (simp only: s)
  from 1 2 t 3 s 4 show ?thesis
    by (intro conjI)
qed

subsection \<open>Stock mutation\<close>

text \<open>
  The helper \<open>validateStockOperation\<close> makes its two checks in the other order, the
  stock first. For a stock that is not negative the order cannot be seen: a quantity that
  is not positive gets the error of the quantity. Only below a negative stock does the
  first check answer.
\<close>

lemma helper_nonpositive_quantity:
  "0 \<le> currentStock \<Longrightarrow> qty \<le> 0 \<Longrightarrow>
     validateStockOperation currentStock opn qty = Inl (Error ''La cantidad debe ser mayor a 0'')"
  by (simp add: validateStockOperation_def)

lemma helper_negative_stock:
  "validateStockOperation (- 3) ''subtract'' (- 1)
     = Inl (Error ''Stock insuficiente. Stock actual: -3, cantidad solicitada: -1'')"
  by code_simp

text \<open>
  C2, as stated, has every request with a quantity that is not positive answered with the
  error of the quantity. A quantity below the safe integers is refused one step earlier:
  for the quantity \<open>- 10\<^sup>2\<^sup>0\<close> the middleware answers that the quantity must be a safe
  number, which is another message.
\<close>

theorem unsafe_quantity_is_not_the_quantity_error:
  "stock_route (\<lambda>u. True) ''t'' [widget] ''p1''
       \<lparr> quantity = - 100000000000000000000, operation = ''subtract'', reason = Missing \<rparr>
     = (StockValidationFailed
          [\<lparr> fe_field = ''quantity'', fe_message = ''\"quantity\" must be a safe number'',
             fe_value = VNum (- 100000000000000000000) \<rparr>], [widget])
   \<and> ''\"quantity\" must be a safe number'' \<noteq> ''La cantidad debe ser mayor a 0''"
  by (simp add: stock_route_def stock_schema_def MAX_SAFE_INTEGER_def)

text \<open>
  C2, amended. A request to \<^verbatim>\<open>PATCH /:id/stock\<close> with a quantity that is not positive
  and an operation \<^verbatim>\<open>add\<close> or \<^verbatim>\<open>subtract\<close> is refused by the middleware, whatever the
  table holds: with the error of the quantity when the quantity is a safe integer, and
  with the error of the unsafe number when it lies below them. The handler, and with it
  the branches of \<open>updateStock\<close> and the check of the stock, does not run, and the table
  is unchanged.
\<close>

theorem nonpositive_quantity_rejected:
  assumes "uuid_ok pk" and "quantity body \<le> 0" and "operation body \<in> {''add'', ''subtract''}"
  shows "stock_route uuid_ok now rows pk body
     = (StockValidationFailed
          [\<lparr> fe_field = ''quantity'',
             fe_message = (if quantity body < - MAX_SAFE_INTEGER
                           then ''\"quantity\" must be a safe number''
                           else ''La cantidad debe ser mayor a 0''),
             fe_value = VNum (quantity body) \<rparr>], rows)"
  using assms(1,2) by (simp add: stock_route_def stock_schema_def MAX_SAFE_INTEGER_def)

theorem nonpositive_quantity_rejected_witness:
  "stock_route (\<lambda>u. True) ''t'' [widget\<lparr> stock := 0 \<rparr>] ''p1''
       \<lparr> quantity = - 2, operation = ''subtract'', reason = Missing \<rparr>
     = (StockValidationFailed
          [\<lparr> fe_field = ''quantity'', fe_message = ''La cantidad debe ser mayor a 0'',
             fe_value = VNum (- 2) \<rparr>], [widget\<lparr> stock := 0 \<rparr>])"
  using nonpositive_quantity_rejected [of "\<lambda>u. True" "''p1''"
      "\<lparr> quantity = - 2, operation = ''subtract'', reason = Missing \<rparr>" "''t''"
      "[widget\<lparr> stock := 0 \<rparr>]"]
  by (simp add: MAX_SAFE_INTEGER_def)

text \<open>
  The validator of the stock refuses every number, so a \<^verbatim>\<open>save()\<close> that has a changed
  stock to validate throws, and it writes nothing. Every addition, and every subtraction
  that the stock allows, of a quantity other than 0 ends in that validation error.
\<close>

lemma validate_stock_refuses: "validate_stock v = [''El stock no puede ser negativo'']"
  by (simp add: validate_stock_def validator_min_def extractValidatorArgs_def stock_min_args_def)

lemma save_changed:
  "stock this \<noteq> stock previous \<Longrightarrow>
     save rows previous this = Inl (Error ''Validation error: El stock no puede ser negativo'')"
  by (simp add: save_def validate_stock_refuses)

lemma save_unchanged: "stock this = stock previous \<Longrightarrow> save rows previous this = Inr rows"
  by (simp add: save_def)

lemma stock_change_refused:
  "qty \<noteq> 0 \<Longrightarrow>
     updateStock rows this qty ''add''
       = Inl (Error ''Validation error: El stock no puede ser negativo'')
     \<and> (qty \<le> stock this \<longrightarrow>
          updateStock rows this qty ''subtract''
            = Inl (Error ''Validation error: El stock no puede ser negativo''))"
  by (simp add: updateStock_def save_instance_def save_changed)

lemma save_instance_not_insufficient:
  "save_instance rows previous this \<noteq> Inl (Error ''Stock insuficiente'')"
  by (simp add: save_instance_def save_def validate_stock_refuses)

lemma handler_failure_keeps_table:
  "fst (stock_handler now rows pk body) = Thrown e \<Longrightarrow> snd (stock_handler now rows pk body) = rows"
  by (auto simp add: stock_handler_def Let_def split: option.splits sum.splits js_error.splits)

text \<open>
  C3, as stated, has the error of a failed subtraction carry the current stock and the
  requested quantity, and has the addition never fail. The error carries nothing:
  \<open>updateStock\<close> throws the same error, with the fixed message
  \<^verbatim>\<open>Stock insuficiente\<close>, for stock 3 and quantity 5 as for stock 1 and quantity 7, and
  the route answers with that message and status 400; the message with the two numbers is
  the one of the helper \<open>validateStockOperation\<close>, which the route does not call. And on
  the widget, with stock 5, the addition of 2 and the subtraction of 2 both end in the
  validation error of \<^verbatim>\<open>save()\<close>.
\<close>

theorem insufficient_stock_error_is_fixed_text:
  "updateStock [widget\<lparr> stock := 3 \<rparr>] (widget\<lparr> stock := 3 \<rparr>) 5 ''subtract''
      = Inl (Error ''Stock insuficiente'')
   \<and> updateStock [widget\<lparr> stock := 1 \<rparr>] (widget\<lparr> stock := 1 \<rparr>) 7 ''subtract''
      = Inl (Error ''Stock insuficiente'')
   \<and> fst (stock_route (\<lambda>u. True) ''t'' [widget\<lparr> stock := 3 \<rparr>] ''p1''
            \<lparr> quantity = 5, operation = ''subtract'', reason = Missing \<rparr>)
      = Thrown (AppError ''Stock insuficiente'' 400)
   \<and> validateStockOperation 3 ''subtract'' 5
      = Inl (Error ''Stock insuficiente. Stock actual: 3, cantidad solicitada: 5'')
   \<and> updateStock [widget] widget 2 ''add''
      = Inl (Error ''Validation error: El stock no puede ser negativo'')
   \<and> updateStock [widget] widget 2 ''subtract''
      = Inl (Error ''Validation error: El stock no puede ser negativo'')"
proof -
  have f: "findByPk [widget\<lparr> stock := 3 \<rparr>] ''p1'' = Some (widget\<lparr> stock := 3 \<rparr>)"
    by (simp add: findByPk_def widget_def)
  have a: "updateStock [widget\<lparr> stock := 3 \<rparr>] (widget\<lparr> stock := 3 \<rparr>) 5 ''subtract''
      = Inl (Error ''Stock insuficiente'')"
    by (simp add: updateStock_def)
  have b: "updateStock [widget\<lparr> stock := 1 \<rparr>] (widget\<lparr> stock := 1 \<rparr>) 7 ''subtract''
      = Inl (Error ''Stock insuficiente'')"
    by (simp add: updateStock_def)
  have s: "stock_schema \<lparr> quantity = 5, operation = ''subtract'', reason = Missing \<rparr>
      = Inr \<lparr> quantity = 5, operation = ''subtract'', reason = Missing \<rparr>"
    by (simp add: stock_schema_def MAX_SAFE_INTEGER_def)
  have c: "fst (stock_route (\<lambda>u. True) ''t'' [widget\<lparr> stock := 3 \<rparr>] ''p1''
            \<lparr> quantity = 5, operation = ''subtract'', reason = Missing \<rparr>)
      = Thrown (AppError ''Stock insuficiente'' 400)"
    by (simp add: stock_route_def s stock_handler_def f a)
  have d: "validateStockOperation 3 ''subtract'' 5
      = Inl (Error ''Stock insuficiente. Stock actual: 3, cantidad solicitada: 5'')"
    by code_simp
  have w: "stock widget = 5"
    by (simp add: widget_def)
  have e: "updateStock [widget] widget 2 ''add''
      = Inl (Error ''Validation error: El stock no puede ser negativo'')"
    using stock_change_refused [where qty = 2 and rows = "[widget]" and this = widget] by simp
  have g: "updateStock [widget] widget 2 ''subtract''
      = Inl (Error ''Validation error: El stock no puede ser negativo'')"
    using stock_change_refused [where qty = 2 and rows = "[widget]" and this = widget]
    by (simp add: w)
  from a b c d e g show ?thesis
    by (intro conjI)
qed

text \<open>
  C3, amended. For every record and quantity (a positive one in particular):
  \<^verbatim>\<open>subtract\<close> throws the error of the insufficient stock exactly when the stock is
  below the quantity; that error has the fixed message \<^verbatim>\<open>Stock insuficiente\<close>, the
  handler answers it as a 400 with that message, and the table, with the stock of the
  record, is as it was, as it is after every error that the handler answers. \<^verbatim>\<open>add\<close>
  never throws the error of the insufficient stock. (Whether a subtraction that the stock
  allows, or an addition, is saved is not part of this statement.)
\<close>

theorem insufficient_stock_raised:
  "((updateStock rows this qty ''subtract'' = Inl (Error ''Stock insuficiente''))
      = (stock this < qty))
   \<and> (stock this < qty \<and> findByPk rows pk = Some this \<longrightarrow>
        stock_handler now rows pk \<lparr> quantity = qty, operation = ''subtract'', reason = r \<rparr>
          = (Thrown (AppError ''Stock insuficiente'' 400), rows))
   \<and> updateStock rows this qty ''add'' \<noteq> Inl (Error ''Stock insuficiente'')
   \<and> (fst (stock_handler now rows pk body) = Thrown e \<longrightarrow>
        snd (stock_handler now rows pk body) = rows)"
proof -
  have 1: "(updateStock rows this qty ''subtract'' = Inl (Error ''Stock insuficiente''))
      = (stock this < qty)"
    by (simp add: updateStock_def save_instance_not_insufficient)
  have 2: "stock this < qty \<and> findByPk rows pk = Some this \<longrightarrow>
        stock_handler now rows pk \<lparr> quantity = qty, operation = ''subtract'', reason = r \<rparr>
          = (Thrown (AppError ''Stock insuficiente'' 400), rows)"
    by (simp add: stock_handler_def updateStock_def)
  have 3: "updateStock rows this qty ''add'' \<noteq> Inl (Error ''Stock insuficiente'')"
    by (simp add: updateStock_def save_instance_not_insufficient)
  have 4: "fst (stock_handler now rows pk body) = Thrown e \<longrightarrow>
        snd (stock_handler now rows pk body) = rows"
    using handler_failure_keeps_table by blast
  from 1 2 3 4 show ?thesis
    by (intro conjI)
qed

theorem insufficient_stock_raised_witness:
  "updateStock [widget] widget 7 ''subtract'' = Inl (Error ''Stock insuficiente'')
   \<and> stock_handler ''t'' [widget] ''p1'' \<lparr> quantity = 7, operation = ''subtract'', reason = Missing \<rparr>
       = (Thrown (AppError ''Stock insuficiente'' 400), [widget])
   \<and> snd (stock_handler ''t'' [widget] ''p1''
            \<lparr> quantity = 7, operation = ''subtract'', reason = Missing \<rparr>) = [widget]
   \<and> updateStock [widget] widget 2 ''subtract'' \<noteq> Inl (Error ''Stock insuficiente'')
   \<and> updateStock [widget] widget 2 ''add'' \<noteq> Inl (Error ''Stock insuficiente'')"
proof -
  have s: "stock widget = 5" and f: "findByPk [widget] ''p1'' = Some widget"
    by (simp_all add: widget_def findByPk_def)
  show ?thesis
    using insufficient_stock_raised [of "[widget]" widget 7 "''p1''" "''t''" Missing
        "\<lparr> quantity = 7, operation = ''subtract'', reason = Missing \<rparr>"
        "AppError ''Stock insuficiente'' 400"]
      insufficient_stock_raised [of "[widget]" widget 2 "''p1''" "''t''" Missing
        "\<lparr> quantity = 7, operation = ''subtract'', reason = Missing \<rparr>"
        "AppError ''Stock insuficiente'' 400"]
    by (simp add: s f)
qed

subsection \<open>Search\<close>








end
